theory Spec2Isabelle
  imports Main "HOL-Library.Word"
begin

unbundle bit_operations_syntax

section \<open>Machine types\<close>

text \<open>
  The program is written for the MSP430G2553 (captouch.c, line 2). On that target
  \<^verbatim>\<open>int\<close> and \<^verbatim>\<open>unsigned int\<close> are 16 bits wide, \<^verbatim>\<open>char\<close> and \<^verbatim>\<open>uint8_t\<close> are 8 bits
  wide, and Timer_A counts "to 0xFFFF" (line 127). Unsigned arithmetic wraps modulo
  \<open>2 ^ 16\<close>; an \<^verbatim>\<open>int\<close> is a 16-bit word read in two's complement with \<open>sint\<close>.
\<close>

type_synonym u8 = "8 word"
type_synonym u16 = "16 word"

section \<open>Constants\<close>

text \<open>The two constants the source defines itself (lines 38 and 47).\<close>

definition TOUCHPIN :: u8 where
  "TOUCHPIN = 0x01"

definition KEY_LVL :: int where
  "KEY_LVL = 220"

text \<open>
  Modelled from the spec: the register bit masks below are macros of the device header
  of the toolchain, which is not among the sources. The spec treats them as opaque
  settings of the timer, watchdog and clock peripherals; they carry the values of the
  MSP430G2553 header. Only \<open>DIVA_0\<close> and \<open>DIVA_3\<close>, the two settings of the ACLK
  divider field (bits 4 and 5 of BCSCTL1, "ACLK/1" and "ACLK/8" in lines 101 and 105),
  matter to a theorem below.
\<close>

definition TASSEL_3 :: u16 where "TASSEL_3 = 0x0300"
definition MC_2 :: u16 where "MC_2 = 0x0020"
definition TACLR :: u16 where "TACLR = 0x0004"
definition CM_3 :: u16 where "CM_3 = 0xC000"
definition CCIS_2 :: u16 where "CCIS_2 = 0x2000"
definition CAP :: u16 where "CAP = 0x0100"
definition CCIS0 :: u16 where "CCIS0 = 0x1000"
definition WDTPW :: u16 where "WDTPW = 0x5A00"
definition WDTHOLD :: u16 where "WDTHOLD = 0x0080"
definition WDT_MDLY_0_5 :: u16 where "WDT_MDLY_0_5 = 0x5A1A"
definition WDT_ADLY_16 :: u16 where "WDT_ADLY_16 = 0x5A1E"
definition LPM0_bits :: u16 where "LPM0_bits = 0x0010"
definition LPM3_bits :: u16 where "LPM3_bits = 0x00D0"
definition GIE :: u16 where "GIE = 0x0008"
definition DIVA_0 :: u8 where "DIVA_0 = 0x00"
definition DIVA_3 :: u8 where "DIVA_3 = 0x30"
definition LFXT1S_2 :: u8 where "LFXT1S_2 = 0x20"
definition WDTIE :: u8 where "WDTIE = 0x01"

text \<open>The user configuration of lines 42, 44, 52 and 56.\<close>

definition WDT_meas_setting :: u16 where
  "WDT_meas_setting = WDT_MDLY_0_5"

definition WDT_delay_setting :: u16 where
  "WDT_delay_setting = WDT_ADLY_16"

section \<open>State\<close>

text \<open>
  Every store to a peripheral register, every request for a low-power mode and every
  line handed to the serial port is an observable event; the program order of these
  events is kept in the state.
\<close>

datatype event =
    WDTCTL_wr u16
  | DCOCTL_wr u8
  | BCSCTL1_wr u8
  | BCSCTL3_wr u8
  | IE1_wr u8
  | TA0CTL_wr u16
  | TA0CCTL1_wr u16
  | P2DIR_wr u8
  | P2SEL_wr u8
  | P2SEL2_wr u8
  | SR_bis u16
  | UARTConfigure_call
  | Printformat u16 u16 u16
  | UARTPrintln string

text \<open>
  The globals of lines 63 to 66 (\<^verbatim>\<open>j\<close> is never used) and the peripheral registers the
  program writes. A register is a cell that holds the value last stored to it.
  \<open>delta_cnt\<close> and \<open>cycles\<close> are \<^verbatim>\<open>int\<close>: their value is \<open>sint\<close> of the field.
\<close>

record state =
  base_cnt :: u16
  meas_cnt :: u16
  delta_cnt :: u16
  key_pressed :: u8
  cycles :: u16
  WDTCTL :: u16
  DCOCTL :: u8
  BCSCTL1 :: u8
  BCSCTL3 :: u8
  IE1 :: u8
  TA0CTL :: u16
  TA0CCTL1 :: u16
  P2DIR :: u8
  P2SEL :: u8
  P2SEL2 :: u8
  events :: "event list"

definition emit :: "event \<Rightarrow> state \<Rightarrow> state" where
  "emit e s = s\<lparr>events := events s @ [e]\<rparr>"

definition set_WDTCTL :: "u16 \<Rightarrow> state \<Rightarrow> state" where
  "set_WDTCTL v s = emit (WDTCTL_wr v) (s\<lparr>WDTCTL := v\<rparr>)"

definition set_DCOCTL :: "u8 \<Rightarrow> state \<Rightarrow> state" where
  "set_DCOCTL v s = emit (DCOCTL_wr v) (s\<lparr>DCOCTL := v\<rparr>)"

definition set_BCSCTL1 :: "u8 \<Rightarrow> state \<Rightarrow> state" where
  "set_BCSCTL1 v s = emit (BCSCTL1_wr v) (s\<lparr>BCSCTL1 := v\<rparr>)"

definition set_BCSCTL3 :: "u8 \<Rightarrow> state \<Rightarrow> state" where
  "set_BCSCTL3 v s = emit (BCSCTL3_wr v) (s\<lparr>BCSCTL3 := v\<rparr>)"

definition set_IE1 :: "u8 \<Rightarrow> state \<Rightarrow> state" where
  "set_IE1 v s = emit (IE1_wr v) (s\<lparr>IE1 := v\<rparr>)"

definition set_TA0CTL :: "u16 \<Rightarrow> state \<Rightarrow> state" where
  "set_TA0CTL v s = emit (TA0CTL_wr v) (s\<lparr>TA0CTL := v\<rparr>)"

definition set_TA0CCTL1 :: "u16 \<Rightarrow> state \<Rightarrow> state" where
  "set_TA0CCTL1 v s = emit (TA0CCTL1_wr v) (s\<lparr>TA0CCTL1 := v\<rparr>)"

definition set_P2DIR :: "u8 \<Rightarrow> state \<Rightarrow> state" where
  "set_P2DIR v s = emit (P2DIR_wr v) (s\<lparr>P2DIR := v\<rparr>)"

definition set_P2SEL :: "u8 \<Rightarrow> state \<Rightarrow> state" where
  "set_P2SEL v s = emit (P2SEL_wr v) (s\<lparr>P2SEL := v\<rparr>)"

definition set_P2SEL2 :: "u8 \<Rightarrow> state \<Rightarrow> state" where
  "set_P2SEL2 v s = emit (P2SEL2_wr v) (s\<lparr>P2SEL2 := v\<rparr>)"

text \<open>
  \<^verbatim>\<open>__bis_SR_register(bits)\<close> with a low-power mode among the bits halts the processor
  until the watchdog interrupt (lines 147 to 151) clears the mode again. The handler
  touches no variable, so the halt is an event and nothing else.
\<close>

definition bis_SR_register :: "u16 \<Rightarrow> state \<Rightarrow> state" where
  "bis_SR_register bits s = emit (SR_bis bits) s"

section \<open>The oscillation counter: measure_count (lines 125 to 145)\<close>

text \<open>
  The argument \<open>TACCR1\<close> is the value the capture register holds when line 142 reads
  it: the number of oscillations the hardware counted. It is the input of the program.
\<close>

definition measure_count :: "u8 \<Rightarrow> u16 \<Rightarrow> state \<Rightarrow> state" where
  "measure_count pin TACCR1 s0 =
    (let s = set_TA0CTL (TASSEL_3 + MC_2) s0;
         s = set_TA0CCTL1 (CM_3 + CCIS_2 + CAP) s;
         s = set_P2DIR (P2DIR s AND NOT pin) s;
         s = set_P2SEL (P2SEL s AND NOT pin) s;
         s = set_P2SEL2 (P2SEL2 s OR pin) s;
         s = set_WDTCTL WDT_meas_setting s;
         s = set_TA0CTL (TA0CTL s OR TACLR) s;
         s = bis_SR_register (LPM0_bits + GIE) s;
         s = set_TA0CCTL1 (TA0CCTL1 s XOR CCIS0) s;
         s = s\<lparr>meas_cnt := TACCR1\<rparr>;
         s = set_WDTCTL (WDTPW + WDTHOLD) s
     in set_P2SEL2 (P2SEL2 s AND NOT pin) s)"

section \<open>The baseline: get_base_count (lines 114 to 123)\<close>

text \<open>
  The loop counter \<^verbatim>\<open>i\<close> runs from 16 down to 1; \<open>rd i\<close> is the count captured in the
  pass where the counter is \<open>i\<close>. The running sum is an \<^verbatim>\<open>unsigned int\<close>.
\<close>

fun get_base_loop :: "nat \<Rightarrow> u8 \<Rightarrow> (nat \<Rightarrow> u16) \<Rightarrow> state \<Rightarrow> state" where
  "get_base_loop 0 pin rd s = s"
| "get_base_loop (Suc i) pin rd s =
    get_base_loop i pin rd
      (let s1 = measure_count pin (rd (Suc i)) s
       in s1\<lparr>base_cnt := meas_cnt s1 + base_cnt s1\<rparr>)"

definition get_base_count :: "u8 \<Rightarrow> (nat \<Rightarrow> u16) \<Rightarrow> state \<Rightarrow> state" where
  "get_base_count pin rd s0 =
    (let s = s0\<lparr>base_cnt := 0\<rparr>;
         s = get_base_loop 16 pin rd s
     in s\<lparr>base_cnt := drop_bit 4 (base_cnt s)\<rparr>)"

section \<open>One pass of the main loop (lines 85 to 110)\<close>

text \<open>Line 87: an unsigned subtraction, stored in an \<^verbatim>\<open>int\<close>.\<close>

definition compute_delta :: "state \<Rightarrow> state" where
  "compute_delta s = s\<lparr>delta_cnt := base_cnt s - meas_cnt s\<rparr>"

text \<open>Lines 91 to 93: the drift correction of the baseline.\<close>

definition adjust_baseline :: "state \<Rightarrow> state" where
  "adjust_baseline s =
    (if sint (delta_cnt s) < 0
     then s\<lparr>base_cnt := drop_bit 1 (base_cnt s + meas_cnt s)\<rparr>
     else s)"

text \<open>Lines 94 to 97: the touch decision.\<close>

definition decide :: "state \<Rightarrow> state" where
  "decide s =
    (if sint (delta_cnt s) > KEY_LVL
     then emit (UARTPrintln ''Presense detected'') (s\<lparr>key_pressed := 1\<rparr>)
     else s\<lparr>key_pressed := 0\<rparr>)"

text \<open>
  Lines 100 to 108: the choice of the delay to the next sample. \<^verbatim>\<open>cycles-- == 0\<close>
  compares the value before the decrement. The decrement is written as 16-bit
  subtraction; the counter never leaves the range from 0 to 20 (lemma
  \<open>cycles_bounded\<close> below), so the subtraction that stays in the counter never wraps.
\<close>

definition sample_rate :: "state \<Rightarrow> state" where
  "sample_rate s =
    (if key_pressed s \<noteq> 0
     then (set_BCSCTL1 ((BCSCTL1 s AND 0xCF) + DIVA_0) s)\<lparr>cycles := 20\<rparr>
     else
       (let old = cycles s;
            s1 = s\<lparr>cycles := old - 1\<rparr>
        in if old = 0
           then (set_BCSCTL1 ((BCSCTL1 s1 AND 0xCF) + DIVA_3) s1)\<lparr>cycles := 0\<rparr>
           else s1))"

definition cycle :: "u16 \<Rightarrow> state \<Rightarrow> state" where
  "cycle TACCR1 s0 =
    (let s = s0\<lparr>key_pressed := 0\<rparr>;
         s = measure_count TOUCHPIN TACCR1 s;
         s = compute_delta s;
         s = emit (Printformat (base_cnt s) (meas_cnt s) (delta_cnt s)) s;
         s = adjust_baseline s;
         s = decide s;
         s = sample_rate s;
         s = set_WDTCTL WDT_delay_setting s
     in bis_SR_register LPM3_bits s)"

text \<open>
  The loop of line 84 never ends. \<open>run rs s\<close> is the state after as many passes as
  \<open>rs\<close> has counts, the first pass capturing the first count.
\<close>

fun run :: "u16 list \<Rightarrow> state \<Rightarrow> state" where
  "run [] s = s"
| "run (r # rs) s = run rs (cycle r s)"

section \<open>Program start (lines 63 to 82)\<close>

text \<open>
  The globals have static storage: they are zero when \<^verbatim>\<open>main\<close> starts, and line 66
  says so for \<^verbatim>\<open>cycles\<close>. The registers hold whatever the reset left in them.
\<close>

definition at_reset :: "state \<Rightarrow> state" where
  "at_reset regs =
    regs\<lparr>base_cnt := 0, meas_cnt := 0, delta_cnt := 0, key_pressed := 0, cycles := 0,
         events := []\<rparr>"

text \<open>
  Lines 71 to 82. \<open>CALBC1_1MHZ\<close> and \<open>CALDCO_1MHZ\<close> are calibration bytes of the
  device. \<^verbatim>\<open>UARTConfigure\<close> belongs to the serial driver, which is not among the sources:
  the call is an event.
\<close>

definition main_startup :: "u8 \<Rightarrow> u8 \<Rightarrow> (nat \<Rightarrow> u16) \<Rightarrow> state \<Rightarrow> state" where
  "main_startup CALBC1_1MHZ CALDCO_1MHZ rd s0 =
    (let s = set_WDTCTL (WDTPW + WDTHOLD) s0;
         s = set_DCOCTL 0 s;
         s = set_BCSCTL1 CALBC1_1MHZ s;
         s = set_DCOCTL CALDCO_1MHZ s;
         s = set_BCSCTL3 (BCSCTL3 s OR LFXT1S_2) s;
         s = set_IE1 (IE1 s OR WDTIE) s;
         s = emit UARTConfigure_call s;
         s = bis_SR_register GIE s
     in get_base_count TOUCHPIN rd s)"

section \<open>Readings of the state\<close>

text \<open>The touch state of a pass, and the signed value of the delta.\<close>

definition touched :: "state \<Rightarrow> bool" where
  "touched s = (key_pressed s \<noteq> 0)"

definition DeltaCount :: "state \<Rightarrow> int" where
  "DeltaCount s = sint (delta_cnt s)"

text \<open>
  The delay between passes is a watchdog interval of ACLK divided by the field DIVA of
  BCSCTL1: ACLK/1 is the fast rate, ACLK/8 the slow one.
\<close>

definition aclk_div :: "state \<Rightarrow> u8" where
  "aclk_div s = BCSCTL1 s AND 0x30"

definition FAST :: "state \<Rightarrow> bool" where
  "FAST s = (aclk_div s = DIVA_0)"

definition SLOW :: "state \<Rightarrow> bool" where
  "SLOW s = (aclk_div s = DIVA_3)"

text \<open>A state whose variables and registers are all zero, to run examples from.\<close>

definition zero_state :: state where
  "zero_state =
    \<lparr>base_cnt = 0, meas_cnt = 0, delta_cnt = 0, key_pressed = 0, cycles = 0,
     WDTCTL = 0, DCOCTL = 0, BCSCTL1 = 0, BCSCTL3 = 0, IE1 = 0, TA0CTL = 0,
     TA0CCTL1 = 0, P2DIR = 0, P2SEL = 0, P2SEL2 = 0, events = []\<rparr>"

text \<open>A run in which no pass reports a touch.\<close>

fun quiet :: "u16 list \<Rightarrow> state \<Rightarrow> bool" where
  "quiet [] s = True"
| "quiet (r # rs) s = (\<not> touched (cycle r s) \<and> quiet rs (cycle r s))"

subsection \<open>The order of the events of one measurement\<close>

text \<open>
  The counter is reset by a store to TA0CTL with the bit TACLR set (line 139, "Reset
  Timer_A (TAR) to zero"); the gate opens with the store that starts the watchdog as
  interval timer (line 138, "Setup Gate Timer", "Start WDT"); the processor halts with
  a request for a mode that has the CPUOFF bit, the bit of \<open>LPM0_bits\<close>.
\<close>

definition counter_reset :: "event \<Rightarrow> bool" where
  "counter_reset e = (case e of TA0CTL_wr v \<Rightarrow> v AND TACLR \<noteq> 0 | _ \<Rightarrow> False)"

definition gate_start :: "event \<Rightarrow> bool" where
  "gate_start e = (case e of WDTCTL_wr v \<Rightarrow> v = WDT_meas_setting | _ \<Rightarrow> False)"

definition halt :: "event \<Rightarrow> bool" where
  "halt e = (case e of SR_bis bits \<Rightarrow> bits AND LPM0_bits \<noteq> 0 | _ \<Rightarrow> False)"

text \<open>\<open>Q\<close> occurs, and \<open>P\<close> occurs before the first \<open>Q\<close>.\<close>

definition occurs_before :: "(event \<Rightarrow> bool) \<Rightarrow> (event \<Rightarrow> bool) \<Rightarrow> event list \<Rightarrow> bool" where
  "occurs_before P Q es = (list_ex Q es \<and> list_ex P (takeWhile (\<lambda>e. \<not> Q e) es))"

text \<open>The first \<open>P\<close> is directly followed by a \<open>Q\<close>.\<close>

fun follows :: "(event \<Rightarrow> bool) \<Rightarrow> (event \<Rightarrow> bool) \<Rightarrow> event list \<Rightarrow> bool" where
  "follows P Q [] = False"
| "follows P Q [e] = False"
| "follows P Q (e # e' # es) = (if P e then Q e' else follows P Q (e' # es))"

text \<open>The events one call of \<open>measure_count\<close> adds.\<close>

definition call_events :: "u8 \<Rightarrow> u16 \<Rightarrow> state \<Rightarrow> event list" where
  "call_events pin TACCR1 s = drop (length (events s)) (events (measure_count pin TACCR1 s))"

text \<open>
  What the measurement hardware holds for a pin: the control registers of the timer,
  of its capture unit and of the watchdog, and the pin's bit of P2SEL2, which routes
  the pin oscillator to the timer.
\<close>

definition meas_hw :: "u8 \<Rightarrow> state \<Rightarrow> u16 \<times> u16 \<times> u16 \<times> u8" where
  "meas_hw pin s = (TA0CTL s, TA0CCTL1 s, WDTCTL s, P2SEL2 s AND pin)"

text \<open>The sum of the sixteen counts of the baseline loop, as a number.\<close>

definition sum16 :: "(nat \<Rightarrow> u16) \<Rightarrow> nat" where
  "sum16 rd = (\<Sum>i\<leftarrow>[1..<17]. unat (rd i))"

section \<open>What the steps change\<close>

lemmas store_defs =
  emit_def set_WDTCTL_def set_DCOCTL_def set_BCSCTL1_def set_BCSCTL3_def set_IE1_def
  set_TA0CTL_def set_TA0CCTL1_def set_P2DIR_def set_P2SEL_def set_P2SEL2_def
  bis_SR_register_def

lemma measure_count_globals:
  "base_cnt (measure_count pin c s) = base_cnt s"
  "meas_cnt (measure_count pin c s) = c"
  "delta_cnt (measure_count pin c s) = delta_cnt s"
  "key_pressed (measure_count pin c s) = key_pressed s"
  "cycles (measure_count pin c s) = cycles s"
  "BCSCTL1 (measure_count pin c s) = BCSCTL1 s"
  by (simp_all add: measure_count_def Let_def store_defs)

lemma measure_count_events:
  "events (measure_count pin c s) = events s @
    [TA0CTL_wr (TASSEL_3 + MC_2),
     TA0CCTL1_wr (CM_3 + CCIS_2 + CAP),
     P2DIR_wr (P2DIR s AND NOT pin),
     P2SEL_wr (P2SEL s AND NOT pin),
     P2SEL2_wr (P2SEL2 s OR pin),
     WDTCTL_wr WDT_meas_setting,
     TA0CTL_wr ((TASSEL_3 + MC_2) OR TACLR),
     SR_bis (LPM0_bits + GIE),
     TA0CCTL1_wr ((CM_3 + CCIS_2 + CAP) XOR CCIS0),
     WDTCTL_wr (WDTPW + WDTHOLD),
     P2SEL2_wr ((P2SEL2 s OR pin) AND NOT pin)]"
  by (simp add: measure_count_def Let_def store_defs)

lemma cycle_delta_cnt: "delta_cnt (cycle r s) = base_cnt s - r"
  by (simp add: cycle_def Let_def compute_delta_def adjust_baseline_def decide_def
      sample_rate_def store_defs measure_count_globals)

lemma cycle_base_cnt:
  "base_cnt (cycle r s) =
    (if sint (base_cnt s - r) < 0 then drop_bit 1 (base_cnt s + r) else base_cnt s)"
  by (simp add: cycle_def Let_def compute_delta_def adjust_baseline_def decide_def
      sample_rate_def store_defs measure_count_globals)

lemma cycle_key_pressed:
  "key_pressed (cycle r s) = (if sint (base_cnt s - r) > KEY_LVL then 1 else 0)"
  by (simp add: cycle_def Let_def compute_delta_def adjust_baseline_def decide_def
      sample_rate_def store_defs measure_count_globals)

lemma cycle_cycles:
  "cycles (cycle r s) =
    (if sint (base_cnt s - r) > KEY_LVL then 20
     else if cycles s = 0 then 0 else cycles s - 1)"
  by (simp add: cycle_def Let_def compute_delta_def adjust_baseline_def decide_def
      sample_rate_def store_defs measure_count_globals)

lemma cycle_BCSCTL1:
  "BCSCTL1 (cycle r s) =
    (if sint (base_cnt s - r) > KEY_LVL then (BCSCTL1 s AND 0xCF) + DIVA_0
     else if cycles s = 0 then (BCSCTL1 s AND 0xCF) + DIVA_3 else BCSCTL1 s)"
  by (simp add: cycle_def Let_def compute_delta_def adjust_baseline_def decide_def
      sample_rate_def store_defs measure_count_globals)

lemma and_cf_30: "((x::u8) AND 0xCF) AND 0x30 = 0"
  by (simp add: and.assoc)

lemma sel_diva_0: "(((x::u8) AND 0xCF) + DIVA_0) AND 0x30 = DIVA_0"
  by (simp add: DIVA_0_def and.assoc)

lemma sel_diva_3: "(((x::u8) AND 0xCF) + DIVA_3) AND 0x30 = DIVA_3"
proof -
  have "(x AND 0xCF) + 0x30 = (x AND 0xCF) OR 0x30"
    by (rule disjunctive_add_eq_or) (simp add: and.assoc)
  then show ?thesis
    by (simp add: DIVA_3_def bit.conj_disj_distrib2 and.assoc)
qed

lemma touched_cycle: "touched (cycle r s) = (KEY_LVL < sint (base_cnt s - r))"
  by (simp add: touched_def cycle_key_pressed)

section \<open>The touch decision\<close>

text \<open>
  Claim C1. In every pass the touch state is "touched" exactly when the delta exceeds
  \<open>KEY_LVL\<close>, which is 220, and the delta is computed from the baseline the pass
  started with, before the drift correction. With a baseline of 500, a raw count of 250
  gives a delta of 250 and a touch; a raw count of 400 gives a delta of 100 and no
  touch.
\<close>

theorem touch_decision:
  "touched (cycle r s) = (KEY_LVL < DeltaCount (cycle r s)) \<and>
   DeltaCount (cycle r s) = sint (base_cnt s - r) \<and>
   KEY_LVL = 220 \<and>
   DeltaCount (cycle 250 (s\<lparr>base_cnt := 500\<rparr>)) = 250 \<and>
   touched (cycle 250 (s\<lparr>base_cnt := 500\<rparr>)) \<and>
   DeltaCount (cycle 400 (s\<lparr>base_cnt := 500\<rparr>)) = 100 \<and>
   \<not> touched (cycle 400 (s\<lparr>base_cnt := 500\<rparr>))"
  by (simp add: touched_cycle DeltaCount_def cycle_delta_cnt KEY_LVL_def)

section \<open>The sample rate\<close>

lemma cycle_FAST: "touched (cycle r s) \<Longrightarrow> FAST (cycle r s) \<and> cycles (cycle r s) = 20"
  by (simp add: touched_cycle FAST_def aclk_div_def cycle_BCSCTL1 cycle_cycles sel_diva_0)

lemma cycle_SLOW:
  "\<not> touched (cycle r s) \<Longrightarrow> cycles s = 0 \<Longrightarrow> SLOW (cycle r s) \<and> cycles (cycle r s) = 0"
  by (simp add: touched_cycle SLOW_def aclk_div_def cycle_BCSCTL1 cycle_cycles sel_diva_3)

lemma cycle_hold:
  "\<not> touched (cycle r s) \<Longrightarrow> cycles s \<noteq> 0 \<Longrightarrow>
    cycles (cycle r s) = cycles s - 1 \<and> aclk_div (cycle r s) = aclk_div s"
  by (simp add: touched_cycle aclk_div_def cycle_BCSCTL1 cycle_cycles)

lemma cycles_bounded: "unat (cycles s) \<le> 20 \<Longrightarrow> unat (cycles (cycle r s)) \<le> 20"
proof -
  assume b: "unat (cycles s) \<le> 20"
  have "unat (cycles s - 1) \<le> 20" if "cycles s \<noteq> 0"
    using that b by (simp add: unat_minus_one)
  then show ?thesis by (simp add: cycle_cycles)
qed

lemma unat_pred: "(c::u16) \<noteq> 0 \<Longrightarrow> unat (c - 1) = unat c - 1"
  by (simp add: unat_minus_one)

lemma run_FAST:
  "FAST s \<Longrightarrow> length rs \<le> unat (cycles s) \<Longrightarrow> unat (cycles s) \<le> 20 \<Longrightarrow> FAST (run rs s)"
proof (induction rs arbitrary: s)
  case Nil
  then show ?case by simp
next
  case (Cons r rs)
  show ?case
  proof (cases "touched (cycle r s)")
    case True
    with cycle_FAST [of r s] have "FAST (cycle r s)" "cycles (cycle r s) = 20" by simp_all
    moreover from Cons.prems have "length rs \<le> 20" by simp
    ultimately show ?thesis using Cons.IH [of "cycle r s"] by simp
  next
    case False
    from Cons.prems have nz: "cycles s \<noteq> 0" by auto
    with False cycle_hold [of r s]
    have "cycles (cycle r s) = cycles s - 1" "aclk_div (cycle r s) = aclk_div s" by simp_all
    with Cons.prems nz have "FAST (cycle r s)" "length rs \<le> unat (cycles (cycle r s))"
      "unat (cycles (cycle r s)) \<le> 20"
      by (simp_all add: FAST_def unat_pred)
    then show ?thesis using Cons.IH [of "cycle r s"] by simp
  qed
qed

lemma run_idle: "SLOW s \<Longrightarrow> cycles s = 0 \<Longrightarrow> quiet rs s \<Longrightarrow> SLOW (run rs s) \<and> cycles (run rs s) = 0"
proof (induction rs arbitrary: s)
  case Nil
  then show ?case by simp
next
  case (Cons r rs)
  then have "\<not> touched (cycle r s)" "quiet rs (cycle r s)" by simp_all
  with Cons.prems cycle_SLOW [of r s] Cons.IH [of "cycle r s"] show ?case by simp
qed

lemma run_SLOW: "quiet rs s \<Longrightarrow> unat (cycles s) < length rs \<Longrightarrow> SLOW (run rs s)"
proof (induction rs arbitrary: s)
  case Nil
  then show ?case by simp
next
  case (Cons r rs)
  then have q: "\<not> touched (cycle r s)" "quiet rs (cycle r s)" by simp_all
  show ?case
  proof (cases "cycles s = 0")
    case True
    with q cycle_SLOW [of r s] run_idle [of "cycle r s" rs] show ?thesis by simp
  next
    case False
    with q cycle_hold [of r s] have "cycles (cycle r s) = cycles s - 1" by simp
    moreover from False have "0 < unat (cycles s)" by (simp add: unat_gt_0)
    ultimately have "unat (cycles (cycle r s)) < length rs"
      using False Cons.prems by (simp add: unat_pred)
    with q Cons.IH [of "cycle r s"] show ?thesis by simp
  qed
qed

lemma quiet_append: "quiet (rs @ ts) s = (quiet rs s \<and> quiet ts (run rs s))"
  by (induction rs arbitrary: s) auto

text \<open>
  Claim C5. A touched pass selects the fast interval and sets the grace counter to 20.
  A pass without touch counts the grace counter down and keeps the interval while the
  counter was not zero; when the counter was zero it selects the slow interval and
  leaves the counter at zero. So after a touched pass the interval is fast after each
  of the next 20 passes, whatever they measure, and when 21 passes without touch
  follow, the interval is still fast after the 20th and slow after the 21st.
\<close>

theorem sample_rate_control:
  "(touched (cycle r s) \<longrightarrow> FAST (cycle r s) \<and> cycles (cycle r s) = 20) \<and>
   (\<not> touched (cycle r s) \<and> cycles s \<noteq> 0 \<longrightarrow>
      cycles (cycle r s) = cycles s - 1 \<and> aclk_div (cycle r s) = aclk_div s) \<and>
   (\<not> touched (cycle r s) \<and> cycles s = 0 \<longrightarrow> SLOW (cycle r s) \<and> cycles (cycle r s) = 0) \<and>
   (touched (cycle r s) \<and> length rs \<le> 20 \<longrightarrow> FAST (run rs (cycle r s))) \<and>
   (touched (cycle r s) \<and> length rs = 20 \<and> quiet (rs @ [r']) (cycle r s) \<longrightarrow>
      FAST (run rs (cycle r s)) \<and> SLOW (run (rs @ [r']) (cycle r s)))"
proof -
  have fast: "FAST (run ts (cycle r s))" if "touched (cycle r s)" "length ts \<le> 20" for ts
    using that cycle_FAST [of r s] run_FAST [of "cycle r s" ts] by simp
  have slow: "SLOW (run ts (cycle r s))"
    if "touched (cycle r s)" "length ts = 21" "quiet ts (cycle r s)" for ts
    using that cycle_FAST [of r s] run_SLOW [of ts "cycle r s"] by simp
  show ?thesis
    using cycle_FAST [of r s] cycle_hold [of r s] cycle_SLOW [of r s] fast [of rs]
      slow [of "rs @ [r']"]
    by auto
qed

theorem sample_rate_control_witness:
  "FAST (cycle 250 (zero_state\<lparr>base_cnt := 500\<rparr>)) \<and>
   cycles (cycle 250 (zero_state\<lparr>base_cnt := 500\<rparr>)) = 20 \<and>
   FAST (run (replicate 20 500) (cycle 250 (zero_state\<lparr>base_cnt := 500\<rparr>))) \<and>
   SLOW (run (replicate 20 500 @ [500]) (cycle 250 (zero_state\<lparr>base_cnt := 500\<rparr>))) \<and>
   cycles (cycle 500 (zero_state\<lparr>base_cnt := 500, cycles := 20\<rparr>)) = 19 \<and>
   SLOW (cycle 500 (zero_state\<lparr>base_cnt := 500\<rparr>))"
proof -
  let ?s = "zero_state\<lparr>base_cnt := 500\<rparr>"
  let ?t = "zero_state\<lparr>base_cnt := 500, cycles := 20\<rparr>"
  have a: "touched (cycle 250 ?s)" by code_simp
  have b: "length (replicate 20 (500::u16)) = 20" by simp
  have c: "quiet (replicate 20 500 @ [500]) (cycle 250 ?s)" by code_simp
  have d: "\<not> touched (cycle 500 ?t)" "cycles ?t \<noteq> 0" "cycles ?t - 1 = 19" by code_simp+
  have e: "\<not> touched (cycle 500 ?s)" "cycles ?s = 0" by code_simp+
  show ?thesis
    using sample_rate_control [of 250 ?s "replicate 20 500" 500]
      sample_rate_control [of 500 ?t "[]" 0]
      sample_rate_control [of 500 ?s "[]" 0] a b c d e
    by simp
qed

section \<open>The delta (line 87)\<close>

text \<open>
  The difference of two 16-bit counts needs 17 bits. Stored in an \<^verbatim>\<open>int\<close> it is the
  signed difference as long as that difference fits in 16 bits.
\<close>

lemma delta_exact:
  fixes b r :: u16
  assumes "- 32768 \<le> int (unat b) - int (unat r)" "int (unat b) - int (unat r) \<le> 32767"
  shows "sint (b - r) = int (unat b) - int (unat r)"
proof -
  have "sint (b - r) = signed_take_bit 15 (take_bit 16 (uint b - uint r))"
    by (simp add: sint_uint uint_word_ariths take_bit_eq_mod)
  also have "\<dots> = signed_take_bit 15 (uint b - uint r)"
    by (simp add: signed_take_bit_take_bit)
  also have "\<dots> = uint b - uint r"
    using assms by (simp add: signed_take_bit_int_eq_self_iff)
  finally show ?thesis by simp
qed

lemma cycle_delta_in_range:
  assumes "- 32768 \<le> int (unat (base_cnt s)) - int (unat r)"
    and "int (unat (base_cnt s)) - int (unat r) \<le> 32767"
  shows "DeltaCount (cycle r s) = int (unat (base_cnt s)) - int (unat r)"
  using assms by (simp add: DeltaCount_def cycle_delta_cnt delta_exact)

text \<open>
  Claim C6 says that the delta of a pass is the signed difference of baseline and raw
  count for all counts from 0 to 65535, and is negative exactly when the raw count
  exceeds the baseline. The code does not do that: with a baseline of 500 and a raw
  count of 40000 the difference is -39500, but the delta of the pass is 26036, which
  is not negative; the pass reports a touch and leaves the baseline alone.
\<close>

theorem delta_wraps:
  "DeltaCount (cycle 40000 (zero_state\<lparr>base_cnt := 500\<rparr>)) = 26036 \<and>
   touched (cycle 40000 (zero_state\<lparr>base_cnt := 500\<rparr>)) \<and>
   base_cnt (cycle 40000 (zero_state\<lparr>base_cnt := 500\<rparr>)) = 500"
  by code_simp

section \<open>The drift correction (lines 91 to 93)\<close>

lemma average_exact:
  fixes b r :: u16
  assumes "unat b + unat r < 65536"
  shows "unat (drop_bit 1 (b + r)) = (unat b + unat r) div 2"
  using assms by (simp add: unat_drop_bit_eq unat_word_ariths drop_bit_eq_div)

text \<open>
  A negative delta replaces the baseline by the average of baseline and raw count, as
  long as their sum fits in 16 bits; any other delta leaves the baseline alone. With a
  baseline of 500 and a raw count of 600 the new baseline is 550 and there is no touch.
\<close>

lemma cycle_average_in_range:
  assumes "DeltaCount (cycle r s) < 0" and "unat (base_cnt s) + unat r < 65536"
  shows "unat (base_cnt (cycle r s)) = (unat (base_cnt s) + unat r) div 2"
  using assms average_exact [of "base_cnt s" r]
  by (simp add: DeltaCount_def cycle_delta_cnt cycle_base_cnt)

lemma cycle_unchanged:
  assumes "0 \<le> DeltaCount (cycle r s)"
  shows "base_cnt (cycle r s) = base_cnt s"
  using assms by (simp add: DeltaCount_def cycle_delta_cnt cycle_base_cnt)

lemma cycle_example_drift:
  "base_cnt (cycle 600 (s\<lparr>base_cnt := 500\<rparr>)) = 550 \<and>
   \<not> touched (cycle 600 (s\<lparr>base_cnt := 500\<rparr>))"
  by (simp add: cycle_base_cnt touched_cycle KEY_LVL_def)

text \<open>
  A pass does not lower a baseline below 32768 when the sum of baseline and raw count
  fits in 16 bits.
\<close>

lemma cycle_not_lower_in_range:
  assumes b: "unat (base_cnt s) < 32768" and sum: "unat (base_cnt s) + unat r < 65536"
  shows "unat (base_cnt s) \<le> unat (base_cnt (cycle r s))"
proof (cases "sint (base_cnt s - r) < 0")
  case False
  then show ?thesis by (simp add: cycle_base_cnt)
next
  case True
  have "unat (base_cnt s) < unat r"
  proof (rule ccontr)
    assume le: "\<not> unat (base_cnt s) < unat r"
    have "sint (base_cnt s - r) = int (unat (base_cnt s)) - int (unat r)"
    proof (rule delta_exact)
      show "- 32768 \<le> int (unat (base_cnt s)) - int (unat r)" using le by linarith
      show "int (unat (base_cnt s)) - int (unat r) \<le> 32767" using b by linarith
    qed
    with le True show False by linarith
  qed
  with True sum average_exact [of "base_cnt s" r] show ?thesis
    by (simp add: cycle_base_cnt)
qed

text \<open>
  Claim C2 says that a negative delta makes the new baseline the average of baseline
  and raw count, for every baseline and raw count. The code does not do that when the
  sum passes 65535: with a baseline of 20000 and a raw count of 50000 the delta is
  -30000 and the new baseline is 2232, where the average is 35000.
\<close>

theorem average_overflow:
  "DeltaCount (cycle 50000 (zero_state\<lparr>base_cnt := 20000\<rparr>)) = - 30000 \<and>
   base_cnt (cycle 50000 (zero_state\<lparr>base_cnt := 20000\<rparr>)) = 2232"
  by code_simp

text \<open>
  Claim C3 says that the drift correction never lowers the baseline, so that the
  baseline never falls in a run whose raw counts are all at or above the baseline of
  their pass. The code does not do that: started with sixteen counts of 4000 the
  baseline is 4000; a raw count of 36000 raises it to 20000; a raw count of 50000 then
  lowers it to 2232.
\<close>

theorem baseline_drops:
  "base_cnt (main_startup 0 0 (\<lambda>i. 4000) (at_reset zero_state)) = 4000 \<and>
   base_cnt (run [36000] (main_startup 0 0 (\<lambda>i. 4000) (at_reset zero_state))) = 20000 \<and>
   base_cnt (run [36000, 50000] (main_startup 0 0 (\<lambda>i. 4000) (at_reset zero_state))) = 2232"
  by code_simp

text \<open>
  Claim C9. A pass that reports a touch ends with the baseline it started with.
\<close>

theorem touch_keeps_baseline:
  "touched (cycle r s) \<Longrightarrow> base_cnt (cycle r s) = base_cnt s"
  by (simp add: touched_cycle cycle_base_cnt KEY_LVL_def)

theorem touch_keeps_baseline_witness:
  "touched (cycle 250 (zero_state\<lparr>base_cnt := 500\<rparr>)) \<and>
   base_cnt (cycle 250 (zero_state\<lparr>base_cnt := 500\<rparr>)) = 500"
proof -
  have t: "touched (cycle 250 (zero_state\<lparr>base_cnt := 500\<rparr>))" by code_simp
  from touch_keeps_baseline [OF t] t show ?thesis by (simp add: zero_state_def)
qed

lemma run_snoc: "run (rs @ [r]) s = cycle r (run rs s)"
  by (induction rs arbitrary: s) simp_all

lemma run_fixed: "base_cnt s = b \<Longrightarrow> base_cnt (run (replicate n b) s) = b"
  by (induction n arbitrary: s) (simp_all add: cycle_base_cnt)

text \<open>
  Claim C7. A pass whose raw count equals the baseline has a delta of 0, keeps the
  baseline and reports no touch; after any number of such passes the baseline is still
  the same, and the pass that follows them reports no touch either.
\<close>

theorem fixed_point_idempotent:
  "DeltaCount (cycle (base_cnt s) s) = 0 \<and>
   base_cnt (cycle (base_cnt s) s) = base_cnt s \<and>
   \<not> touched (cycle (base_cnt s) s) \<and>
   base_cnt (run (replicate n (base_cnt s)) s) = base_cnt s \<and>
   \<not> touched (run (replicate (Suc n) (base_cnt s)) s)"
proof -
  have "replicate (Suc n) (base_cnt s) = replicate n (base_cnt s) @ [base_cnt s]"
    by (simp add: replicate_append_same)
  then have "run (replicate (Suc n) (base_cnt s)) s =
      cycle (base_cnt s) (run (replicate n (base_cnt s)) s)"
    by (simp only: run_snoc)
  then show ?thesis
    by (simp add: run_fixed touched_cycle DeltaCount_def cycle_delta_cnt cycle_base_cnt
        KEY_LVL_def del: replicate_Suc run.simps)
qed

section \<open>The first baseline (lines 114 to 123)\<close>

lemma get_base_loop_base:
  "base_cnt (get_base_loop i pin rd s) = base_cnt s + (\<Sum>k\<leftarrow>[1..<Suc i]. rd k)"
  by (induction i arbitrary: s) (simp_all add: Let_def measure_count_globals add_ac)

lemma get_base_count_base:
  "base_cnt (get_base_count pin rd s) = drop_bit 4 (\<Sum>k\<leftarrow>[1..<17]. rd k)"
  by (simp add: get_base_count_def Let_def get_base_loop_base)

lemma unat_sum_list:
  "unat (\<Sum>k\<leftarrow>ks. (f k :: u16)) = (\<Sum>k\<leftarrow>ks. unat (f k)) mod 65536"
  by (induction ks) (simp_all add: unat_word_ariths mod_simps)

text \<open>
  The loop measures sixteen times and adds in 16 bits: the baseline is the sum of the
  sixteen counts modulo 65536, divided by 16. It is the average when the sum stays
  below 65536.
\<close>

lemma get_base_count_unat:
  "unat (base_cnt (get_base_count pin rd s)) = (sum16 rd mod 65536) div 16"
proof -
  have "unat (base_cnt (get_base_count pin rd s)) =
      drop_bit 4 (unat (\<Sum>k\<leftarrow>[1..<17]. rd k))"
    by (simp only: get_base_count_base unat_drop_bit_eq)
  then show ?thesis
    by (simp only: unat_sum_list sum16_def drop_bit_eq_div) simp
qed

lemma get_base_count_average:
  "sum16 rd < 65536 \<Longrightarrow> unat (base_cnt (get_base_count pin rd s)) = sum16 rd div 16"
  by (simp add: get_base_count_unat)

lemma get_base_count_measures:
  "length (events (get_base_loop i pin rd s)) = length (events s) + 11 * i"
  by (induction i arbitrary: s) (simp_all add: Let_def measure_count_events)

text \<open>
  Claim C4 says that the first baseline is the sum of the sixteen counts shifted right
  by 4, their average. The code does not do that when the sum passes 65535: sixteen
  counts of 5000 add up to 80000, whose sixteenth is 5000, and the baseline is 904.
\<close>

theorem base_count_overflow:
  "sum16 (\<lambda>i. 5000) = 80000 \<and>
   base_cnt (get_base_count TOUCHPIN (\<lambda>i. 5000) zero_state) = 904"
proof -
  have "sum16 (\<lambda>i. 5000) = 80000" by (simp add: sum16_def upt_rec)
  moreover have "base_cnt (get_base_count TOUCHPIN (\<lambda>i. 5000) zero_state) = 904"
    by code_simp
  ultimately show ?thesis by simp
qed

section \<open>The first pass\<close>

lemma get_base_loop_cycles: "cycles (get_base_loop i pin rd s) = cycles s"
  by (induction i arbitrary: s) (simp_all add: Let_def measure_count_globals)

lemma main_startup_cycles: "cycles (main_startup c1 c2 rd s) = cycles s"
  by (simp add: main_startup_def get_base_count_def Let_def get_base_loop_cycles store_defs)

text \<open>
  Claim C10. The grace counter is zero when the program starts and still zero when the
  first baseline has been taken; so a first pass that reports no touch selects the slow
  interval, and leaves the counter at zero.
\<close>

theorem no_initial_grace:
  "cycles (main_startup c1 c2 rd (at_reset regs)) = 0 \<and>
   (\<not> touched (cycle r (main_startup c1 c2 rd (at_reset regs))) \<longrightarrow>
      SLOW (cycle r (main_startup c1 c2 rd (at_reset regs))) \<and>
      cycles (cycle r (main_startup c1 c2 rd (at_reset regs))) = 0)"
proof -
  have z: "cycles (main_startup c1 c2 rd (at_reset regs)) = 0"
    by (simp add: main_startup_cycles at_reset_def)
  with cycle_SLOW [of r "main_startup c1 c2 rd (at_reset regs)"] show ?thesis by simp
qed

theorem no_initial_grace_witness:
  "\<not> touched (cycle 500 (main_startup 0 0 (\<lambda>i. 500) (at_reset zero_state))) \<and>
   SLOW (cycle 500 (main_startup 0 0 (\<lambda>i. 500) (at_reset zero_state)))"
proof -
  have q: "\<not> touched (cycle 500 (main_startup 0 0 (\<lambda>i. 500) (at_reset zero_state)))"
    by code_simp
  with no_initial_grace [of 0 0 "\<lambda>i. 500" zero_state 500] show ?thesis by simp
qed

section \<open>One measurement (lines 125 to 145)\<close>

lemma call_events_eq:
  "call_events pin c s =
    [TA0CTL_wr (TASSEL_3 + MC_2),
     TA0CCTL1_wr (CM_3 + CCIS_2 + CAP),
     P2DIR_wr (P2DIR s AND NOT pin),
     P2SEL_wr (P2SEL s AND NOT pin),
     P2SEL2_wr (P2SEL2 s OR pin),
     WDTCTL_wr WDT_meas_setting,
     TA0CTL_wr ((TASSEL_3 + MC_2) OR TACLR),
     SR_bis (LPM0_bits + GIE),
     TA0CCTL1_wr ((CM_3 + CCIS_2 + CAP) XOR CCIS0),
     WDTCTL_wr (WDTPW + WDTHOLD),
     P2SEL2_wr ((P2SEL2 s OR pin) AND NOT pin)]"
  by (simp add: call_events_def measure_count_events)

lemma measure_count_regs:
  "TA0CTL (measure_count pin c s) = (TASSEL_3 + MC_2) OR TACLR"
  "TA0CCTL1 (measure_count pin c s) = (CM_3 + CCIS_2 + CAP) XOR CCIS0"
  "WDTCTL (measure_count pin c s) = WDTPW + WDTHOLD"
  "P2SEL2 (measure_count pin c s) = (P2SEL2 s OR pin) AND NOT pin"
  by (simp_all add: measure_count_def Let_def store_defs)

lemmas order_defs =
  occurs_before_def gate_start_def counter_reset_def halt_def WDT_meas_setting_def
  WDT_MDLY_0_5_def WDTPW_def WDTHOLD_def TASSEL_3_def MC_2_def TACLR_def LPM0_bits_def
  GIE_def

text \<open>
  Claim C8, as the code has it. Every measurement starts with the stores that set the
  timer and its capture unit anew, whatever they held. The counter is reset by the
  store that directly follows the one opening the gate, and the processor halts for
  the gate directly after the reset. Before returning, the measurement stops the
  watchdog and clears the pin's bit of P2SEL2. So the measurement hardware holds no
  state across passes: what it holds after a measurement is the same whatever the
  state before the measurement was.
\<close>

theorem measure_count_frame:
  "call_events pin c s =
     [TA0CTL_wr (TASSEL_3 + MC_2),
      TA0CCTL1_wr (CM_3 + CCIS_2 + CAP),
      P2DIR_wr (P2DIR s AND NOT pin),
      P2SEL_wr (P2SEL s AND NOT pin),
      P2SEL2_wr (P2SEL2 s OR pin),
      WDTCTL_wr WDT_meas_setting,
      TA0CTL_wr ((TASSEL_3 + MC_2) OR TACLR),
      SR_bis (LPM0_bits + GIE),
      TA0CCTL1_wr ((CM_3 + CCIS_2 + CAP) XOR CCIS0),
      WDTCTL_wr (WDTPW + WDTHOLD),
      P2SEL2_wr (P2SEL2 (measure_count pin c s))] \<and>
   follows gate_start counter_reset (call_events pin c s) \<and>
   follows counter_reset halt (call_events pin c s) \<and>
   WDTCTL (measure_count pin c s) = WDTPW + WDTHOLD \<and>
   WDTCTL (measure_count pin c s) AND WDTHOLD = WDTHOLD \<and>
   P2SEL2 (measure_count pin c s) AND pin = 0 \<and>
   meas_hw pin (measure_count pin c s) = meas_hw pin (measure_count pin c' s')"
proof -
  have order:
    "follows gate_start counter_reset (call_events pin c s)"
    "follows counter_reset halt (call_events pin c s)"
    by (simp_all add: call_events_eq order_defs)
  have off: "P2SEL2 (measure_count pin c s) AND pin = 0" for c s
    by (simp add: measure_count_regs and.assoc)
  have stop: "WDTCTL (measure_count pin c s) AND WDTHOLD = WDTHOLD"
    by (simp add: measure_count_regs WDTPW_def WDTHOLD_def)
  have same: "meas_hw pin (measure_count pin c s) = meas_hw pin (measure_count pin c' s')"
    by (simp add: meas_hw_def measure_count_regs(1-3) off)
  from order off stop same show ?thesis
    by (simp add: call_events_eq measure_count_regs)
qed

text \<open>
  Claim C8 as stated has the counter reset before the gate opens. In a measurement of
  the touch pin no reset of the counter comes before the store that opens the gate.
\<close>

theorem reset_not_before_gate:
  "\<not> occurs_before counter_reset gate_start (call_events TOUCHPIN 500 zero_state)"
  by (simp add: call_events_eq order_defs)

end
